theory Spec2Isabelle
  imports Main "HOL-Library.Word"
begin

unbundle bit_operations_syntax

section \<open>Constants of \<^verbatim>\<open>kindle_tool.h\<close>\<close>

text \<open>
  The size constants, as the header defines them (lines 81 to 100).
\<close>

definition BLOCK_SIZE :: nat where
  "BLOCK_SIZE = 64"

definition RECOVERY_BLOCK_SIZE :: nat where
  "RECOVERY_BLOCK_SIZE = 131072"

definition MAGIC_NUMBER_LENGTH :: nat where
  "MAGIC_NUMBER_LENGTH = 4"

definition MD5_HASH_LENGTH :: nat where
  "MD5_HASH_LENGTH = 32"

definition OTA_UPDATE_BLOCK_SIZE :: nat where
  "OTA_UPDATE_BLOCK_SIZE = 60"

definition OTA_UPDATE_V2_BLOCK_SIZE :: nat where
  "OTA_UPDATE_V2_BLOCK_SIZE = 18"

definition OTA_UPDATE_V2_PART_2_BLOCK_SIZE :: nat where
  "OTA_UPDATE_V2_PART_2_BLOCK_SIZE = 36"

definition RECOVERY_UPDATE_BLOCK_SIZE :: nat where
  "RECOVERY_UPDATE_BLOCK_SIZE = 131068"

definition UPDATE_SIGNATURE_BLOCK_SIZE :: nat where
  "UPDATE_SIGNATURE_BLOCK_SIZE = 60"

definition SERIAL_NO_LENGTH :: nat where
  "SERIAL_NO_LENGTH = 16"

text \<open>
  \<^verbatim>\<open>UpdateHeader\<close> is the four bytes of \<^verbatim>\<open>magic_number\<close> followed by a union; the
  union's three raw buffers are the header blocks that a reader fills after the magic:
  \<^verbatim>\<open>ota_header_data[OTA_UPDATE_BLOCK_SIZE]\<close>,
  \<^verbatim>\<open>signature_header_data[UPDATE_SIGNATURE_BLOCK_SIZE]\<close> and
  \<^verbatim>\<open>recovery_header_data[RECOVERY_UPDATE_BLOCK_SIZE]\<close>.
\<close>

datatype header_data = ota_header_data | signature_header_data | recovery_header_data

fun header_data_size :: "header_data \<Rightarrow> nat" where
  "header_data_size ota_header_data = OTA_UPDATE_BLOCK_SIZE"
| "header_data_size signature_header_data = UPDATE_SIGNATURE_BLOCK_SIZE"
| "header_data_size recovery_header_data = RECOVERY_UPDATE_BLOCK_SIZE"

section \<open>File name classification macros\<close>

text \<open>
  A file name is the list of characters before the terminating NUL, so \<^verbatim>\<open>strlen\<close> is
  the length of the list and reading past the end of the list reads the NUL.
  \<^verbatim>\<open>tolower\<close> is the one of the C locale: only \<^verbatim>\<open>A\<close> to \<^verbatim>\<open>Z\<close> change.
\<close>

definition strlen :: "string \<Rightarrow> nat" where
  "strlen s = length s"

definition tolower :: "char \<Rightarrow> char" where
  "tolower c =
     (let n = (of_char c :: nat) in if 65 \<le> n \<and> n \<le> 90 then char_of (n + 32) else c)"

text \<open>
  \<^verbatim>\<open>strncmp\<close> and \<^verbatim>\<open>strncasecmp\<close> compare at most \<open>n\<close> characters as unsigned
  bytes, stop at the first difference, and stop with 0 when both strings end.
\<close>

fun strncmp :: "string \<Rightarrow> string \<Rightarrow> nat \<Rightarrow> int" where
  "strncmp s1 s2 0 = 0"
| "strncmp [] [] (Suc n) = 0"
| "strncmp [] (c2 # s2) (Suc n) = - int (of_char c2)"
| "strncmp (c1 # s1) [] (Suc n) = int (of_char c1)"
| "strncmp (c1 # s1) (c2 # s2) (Suc n) =
     (if c1 \<noteq> c2 then int (of_char c1) - int (of_char c2)
      else if c1 = CHR 0x00 then 0
      else strncmp s1 s2 n)"

fun strncasecmp :: "string \<Rightarrow> string \<Rightarrow> nat \<Rightarrow> int" where
  "strncasecmp s1 s2 0 = 0"
| "strncasecmp [] [] (Suc n) = 0"
| "strncasecmp [] (c2 # s2) (Suc n) = - int (of_char (tolower c2))"
| "strncasecmp (c1 # s1) [] (Suc n) = int (of_char (tolower c1))"
| "strncasecmp (c1 # s1) (c2 # s2) (Suc n) =
     (if tolower c1 \<noteq> tolower c2
      then int (of_char (tolower c1)) - int (of_char (tolower c2))
      else if c1 = CHR 0x00 then 0
      else strncasecmp s1 s2 n)"

text \<open>
  The macros of lines 104 to 112. Each one compares from the pointer
  \<^verbatim>\<open>filename + (strlen(filename) - k)\<close>; for a name shorter than \<open>k\<close> the unsigned
  subtraction wraps and the pointer is out of bounds, which is the value \<open>None\<close> here.
\<close>

definition IS_SCRIPT :: "string \<Rightarrow> bool option" where
  "IS_SCRIPT filename =
     (if strlen filename < 4 then None
      else Some (strncasecmp (drop (strlen filename - 4) filename) ''.ffs'' 4 = 0))"

definition IS_SHELL :: "string \<Rightarrow> bool option" where
  "IS_SHELL filename =
     (if strlen filename < 3 then None
      else Some (strncasecmp (drop (strlen filename - 3) filename) ''.sh'' 3 = 0))"

definition IS_SIG :: "string \<Rightarrow> bool option" where
  "IS_SIG filename =
     (if strlen filename < 4 then None
      else Some (strncasecmp (drop (strlen filename - 4) filename) ''.sig'' 4 = 0))"

definition IS_BIN :: "string \<Rightarrow> bool option" where
  "IS_BIN filename =
     (if strlen filename < 4 then None
      else Some (strncasecmp (drop (strlen filename - 4) filename) ''.bin'' 4 = 0))"

definition IS_STGZ :: "string \<Rightarrow> bool option" where
  "IS_STGZ filename =
     (if strlen filename < 5 then None
      else Some (strncasecmp (drop (strlen filename - 5) filename) ''.stgz'' 5 = 0))"

definition IS_TGZ :: "string \<Rightarrow> bool option" where
  "IS_TGZ filename =
     (if strlen filename < 4 then None
      else Some (strncasecmp (drop (strlen filename - 4) filename) ''.tgz'' 4 = 0))"

definition IS_TARBALL :: "string \<Rightarrow> bool option" where
  "IS_TARBALL filename =
     (if strlen filename < 7 then None
      else Some (strncasecmp (drop (strlen filename - 7) filename) ''.tar.gz'' 7 = 0))"

definition IS_DAT :: "string \<Rightarrow> bool option" where
  "IS_DAT filename =
     (if strlen filename < 4 then None
      else Some (strncasecmp (drop (strlen filename - 4) filename) ''.dat'' 4 = 0))"

definition IS_UIMAGE :: "string \<Rightarrow> bool option" where
  "IS_UIMAGE filename =
     (if strlen filename < 6 then None
      else Some (strncmp (drop (strlen filename - 6) filename) ''uImage'' 6 = 0))"

section \<open>Headers\<close>

type_synonym u8 = "8 word"
type_synonym u16 = "16 word"
type_synonym u32 = "32 word"
type_synonym u64 = "64 word"

text \<open>The error kinds of the specification (section 7).\<close>

datatype HashAlgo = HashNone | HashMD5 | HashSHA256

datatype error = Io | Truncated | InvalidMagic | InvalidHeader | UnknownDevice
  | UnknownPlatform | UnknownBoard | UnsupportedKind | MissingScript | AmbiguousScript
  | IntegrityFailure HashAlgo string string | KeyParse | SlotMismatch | BadSignature

text \<open>
  \<^verbatim>\<open>CertificateNumber\<close> (lines 187 to 193), with the enumerators' values, and the
  header structures of lines 485 to 521. A field name carries the structure's prefix, since
  several structures share \<^verbatim>\<open>md5_sum\<close>, \<^verbatim>\<open>device\<close> and \<^verbatim>\<open>target_revision\<close>. The
  character arrays \<^verbatim>\<open>md5_sum[32]\<close>, \<^verbatim>\<open>unused[12]\<close> and \<^verbatim>\<open>foo[4]\<close> are lists, whose
  lengths the predicates \<open>wf_\<dots>\<close> below fix.
\<close>

datatype CertificateNumber =
  CertificateDeveloper | Certificate1K | Certificate2K | CertificateUnknown

fun CertificateNumber_value :: "CertificateNumber \<Rightarrow> u32" where
  "CertificateNumber_value CertificateDeveloper = 0x00"
| "CertificateNumber_value Certificate1K = 0x01"
| "CertificateNumber_value Certificate2K = 0x02"
| "CertificateNumber_value CertificateUnknown = 0xFF"

definition CertificateNumber_of :: "u32 \<Rightarrow> CertificateNumber option" where
  "CertificateNumber_of w =
     (if w = 0x00 then Some CertificateDeveloper
      else if w = 0x01 then Some Certificate1K
      else if w = 0x02 then Some Certificate2K
      else if w = 0xFF then Some CertificateUnknown
      else None)"

record UpdateSignatureHeader =
  certificate_number :: CertificateNumber

record OTAUpdateHeader =
  ota_source_revision :: u32
  ota_target_revision :: u32
  ota_device :: u16
  ota_optional :: u8
  ota_unused :: u8
  ota_md5_sum :: string

text \<open>
  Modelled from the spec: the header has no structure for the OTA v2 header, only the
  sizes \<^verbatim>\<open>OTA_UPDATE_V2_BLOCK_SIZE\<close> (18) and \<^verbatim>\<open>OTA_UPDATE_V2_PART_2_BLOCK_SIZE\<close> (36).
  The specification gives the prefix as source_rev (u64), target_rev (u64), num_devices
  (u16) and each tail as device (u16), critical (u8), unused (u8), md5[32].
\<close>

record OTAUpdateV2Tail =
  tail_device :: u16
  tail_critical :: u8
  tail_unused :: u8
  tail_md5_sum :: string

record OTAUpdateV2Header =
  v2_source_revision :: u64
  v2_target_revision :: u64
  v2_num_devices :: u16
  v2_tails :: "OTAUpdateV2Tail list"

record RecoveryUpdateHeader =
  rec_unused :: "u8 list"
  rec_md5_sum :: string
  rec_magic_1 :: u32
  rec_magic_2 :: u32
  rec_minor :: u32
  rec_device :: u32

record RecoveryH2UpdateHeader =
  h2_foo :: "u8 list"
  h2_target_revision :: u64
  h2_md5_sum :: string
  h2_magic_1 :: u32
  h2_magic_2 :: u32
  h2_minor :: u32
  h2_platform :: u32
  h2_header_rev :: u32
  h2_board :: u32

subsection \<open>Little-endian fields\<close>

fun le_bytes :: "nat \<Rightarrow> 'a::len word \<Rightarrow> u8 list" where
  "le_bytes 0 w = []"
| "le_bytes (Suc n) w = ucast w # le_bytes n (drop_bit 8 w)"

fun le_word :: "u8 list \<Rightarrow> 'a::len word" where
  "le_word [] = 0"
| "le_word (b # bs) = ucast b OR push_bit 8 (le_word bs)"

definition ascii_bytes :: "string \<Rightarrow> u8 list" where
  "ascii_bytes s = map (\<lambda>c. of_nat (of_char c)) s"

definition bytes_ascii :: "u8 list \<Rightarrow> string" where
  "bytes_ascii bs = map (\<lambda>b. char_of (unat b)) bs"

definition zero_pad :: "nat \<Rightarrow> u8 list \<Rightarrow> u8 list" where
  "zero_pad n bs = bs @ replicate (n - length bs) 0"

definition read_u8 :: "u8 list \<Rightarrow> u8 \<times> u8 list" where
  "read_u8 bs = (case bs of [] \<Rightarrow> (0, []) | b # r \<Rightarrow> (b, r))"

definition read_u16 :: "u8 list \<Rightarrow> u16 \<times> u8 list" where
  "read_u16 bs = (le_word (take 2 bs), drop 2 bs)"

definition read_u32 :: "u8 list \<Rightarrow> u32 \<times> u8 list" where
  "read_u32 bs = (le_word (take 4 bs), drop 4 bs)"

definition read_u64 :: "u8 list \<Rightarrow> u64 \<times> u8 list" where
  "read_u64 bs = (le_word (take 8 bs), drop 8 bs)"

definition read_bytes :: "nat \<Rightarrow> u8 list \<Rightarrow> u8 list \<times> u8 list" where
  "read_bytes n bs = (take n bs, drop n bs)"

definition read_ascii :: "nat \<Rightarrow> u8 list \<Rightarrow> string \<times> u8 list" where
  "read_ascii n bs = (bytes_ascii (take n bs), drop n bs)"

subsection \<open>The header codec\<close>

text \<open>
  Modelled from the spec: \<^verbatim>\<open>kindle_tool.h\<close> declares the header structures but no
  function that packs or unpacks them. Section 4.3 of the specification asks for
  \<open>encode\<close> and \<open>decode\<close> per variant, with little-endian numeric fields, fixed-width
  digests, a decoder that rejects a buffer shorter than the variant's block with
  \<open>InvalidHeader\<close>, and a block whose surplus is zeroed on encode and ignored on decode.
  The fields are laid out in the order and widths of the structures; the block is the one
  that follows the magic, with the sizes of the header's constants.
\<close>

definition encode_signature :: "UpdateSignatureHeader \<Rightarrow> u8 list" where
  "encode_signature h =
     zero_pad UPDATE_SIGNATURE_BLOCK_SIZE
       (le_bytes 4 (CertificateNumber_value (certificate_number h)))"

definition decode_signature :: "u8 list \<Rightarrow> error + UpdateSignatureHeader" where
  "decode_signature bs =
     (if length bs < UPDATE_SIGNATURE_BLOCK_SIZE then Inl InvalidHeader
      else case read_u32 bs of (n, r) \<Rightarrow>
        (case CertificateNumber_of n of
           None \<Rightarrow> Inl InvalidHeader
         | Some c \<Rightarrow> Inr \<lparr>certificate_number = c\<rparr>))"

definition encode_ota :: "OTAUpdateHeader \<Rightarrow> u8 list" where
  "encode_ota h =
     zero_pad OTA_UPDATE_BLOCK_SIZE
       (le_bytes 4 (ota_source_revision h) @ le_bytes 4 (ota_target_revision h) @
        le_bytes 2 (ota_device h) @ [ota_optional h, ota_unused h] @
        ascii_bytes (ota_md5_sum h))"

definition decode_ota :: "u8 list \<Rightarrow> error + OTAUpdateHeader" where
  "decode_ota bs =
     (if length bs < OTA_UPDATE_BLOCK_SIZE then Inl InvalidHeader
      else case read_u32 bs of (src, r1) \<Rightarrow>
           case read_u32 r1 of (tgt, r2) \<Rightarrow>
           case read_u16 r2 of (dev, r3) \<Rightarrow>
           case read_u8 r3 of (opt, r4) \<Rightarrow>
           case read_u8 r4 of (un, r5) \<Rightarrow>
           case read_ascii MD5_HASH_LENGTH r5 of (md5, r6) \<Rightarrow>
             Inr \<lparr>ota_source_revision = src, ota_target_revision = tgt, ota_device = dev,
                  ota_optional = opt, ota_unused = un, ota_md5_sum = md5\<rparr>)"

definition wf_ota :: "OTAUpdateHeader \<Rightarrow> bool" where
  "wf_ota h = (length (ota_md5_sum h) = MD5_HASH_LENGTH)"

text \<open>
  Modelled from the spec: the OTA v2 decoder reads \<open>num_devices\<close> and then that many
  36-byte tails; a buffer that cannot hold them is rejected as well.
\<close>

definition encode_tail :: "OTAUpdateV2Tail \<Rightarrow> u8 list" where
  "encode_tail t =
     le_bytes 2 (tail_device t) @ [tail_critical t, tail_unused t] @
     ascii_bytes (tail_md5_sum t)"

definition read_tail :: "u8 list \<Rightarrow> OTAUpdateV2Tail \<times> u8 list" where
  "read_tail bs =
     (case read_u16 bs of (dev, r1) \<Rightarrow>
      case read_u8 r1 of (crit, r2) \<Rightarrow>
      case read_u8 r2 of (un, r3) \<Rightarrow>
      case read_ascii MD5_HASH_LENGTH r3 of (md5, r4) \<Rightarrow>
        (\<lparr>tail_device = dev, tail_critical = crit, tail_unused = un, tail_md5_sum = md5\<rparr>,
         r4))"

fun read_tails :: "nat \<Rightarrow> u8 list \<Rightarrow> OTAUpdateV2Tail list \<times> u8 list" where
  "read_tails 0 bs = ([], bs)"
| "read_tails (Suc n) bs =
     (case read_tail bs of (t, r) \<Rightarrow>
      case read_tails n r of (ts, r') \<Rightarrow> (t # ts, r'))"

definition encode_ota_v2 :: "OTAUpdateV2Header \<Rightarrow> u8 list" where
  "encode_ota_v2 h =
     zero_pad OTA_UPDATE_BLOCK_SIZE
       (le_bytes 8 (v2_source_revision h) @ le_bytes 8 (v2_target_revision h) @
        le_bytes 2 (v2_num_devices h) @ concat (map encode_tail (v2_tails h)))"

definition decode_ota_v2 :: "u8 list \<Rightarrow> error + OTAUpdateV2Header" where
  "decode_ota_v2 bs =
     (if length bs < OTA_UPDATE_BLOCK_SIZE then Inl InvalidHeader
      else case read_u64 bs of (src, r1) \<Rightarrow>
           case read_u64 r1 of (tgt, r2) \<Rightarrow>
           case read_u16 r2 of (num, r3) \<Rightarrow>
             if length r3 < unat num * OTA_UPDATE_V2_PART_2_BLOCK_SIZE then Inl InvalidHeader
             else case read_tails (unat num) r3 of (ts, r4) \<Rightarrow>
               Inr \<lparr>v2_source_revision = src, v2_target_revision = tgt,
                    v2_num_devices = num, v2_tails = ts\<rparr>)"

definition wf_tail :: "OTAUpdateV2Tail \<Rightarrow> bool" where
  "wf_tail t = (length (tail_md5_sum t) = MD5_HASH_LENGTH)"

definition wf_ota_v2 :: "OTAUpdateV2Header \<Rightarrow> bool" where
  "wf_ota_v2 h =
     (unat (v2_num_devices h) = length (v2_tails h) \<and> list_all wf_tail (v2_tails h))"

definition encode_recovery :: "RecoveryUpdateHeader \<Rightarrow> u8 list" where
  "encode_recovery h =
     zero_pad RECOVERY_UPDATE_BLOCK_SIZE
       (rec_unused h @ ascii_bytes (rec_md5_sum h) @ le_bytes 4 (rec_magic_1 h) @
        le_bytes 4 (rec_magic_2 h) @ le_bytes 4 (rec_minor h) @ le_bytes 4 (rec_device h))"

definition decode_recovery :: "u8 list \<Rightarrow> error + RecoveryUpdateHeader" where
  "decode_recovery bs =
     (if length bs < RECOVERY_UPDATE_BLOCK_SIZE then Inl InvalidHeader
      else case read_bytes 12 bs of (un, r1) \<Rightarrow>
           case read_ascii MD5_HASH_LENGTH r1 of (md5, r2) \<Rightarrow>
           case read_u32 r2 of (m1, r3) \<Rightarrow>
           case read_u32 r3 of (m2, r4) \<Rightarrow>
           case read_u32 r4 of (mi, r5) \<Rightarrow>
           case read_u32 r5 of (dev, r6) \<Rightarrow>
             Inr \<lparr>rec_unused = un, rec_md5_sum = md5, rec_magic_1 = m1, rec_magic_2 = m2,
                  rec_minor = mi, rec_device = dev\<rparr>)"

definition wf_recovery :: "RecoveryUpdateHeader \<Rightarrow> bool" where
  "wf_recovery h = (length (rec_unused h) = 12 \<and> length (rec_md5_sum h) = MD5_HASH_LENGTH)"

definition encode_recovery_h2 :: "RecoveryH2UpdateHeader \<Rightarrow> u8 list" where
  "encode_recovery_h2 h =
     zero_pad RECOVERY_UPDATE_BLOCK_SIZE
       (h2_foo h @ le_bytes 8 (h2_target_revision h) @ ascii_bytes (h2_md5_sum h) @
        le_bytes 4 (h2_magic_1 h) @ le_bytes 4 (h2_magic_2 h) @ le_bytes 4 (h2_minor h) @
        le_bytes 4 (h2_platform h) @ le_bytes 4 (h2_header_rev h) @ le_bytes 4 (h2_board h))"

definition decode_recovery_h2 :: "u8 list \<Rightarrow> error + RecoveryH2UpdateHeader" where
  "decode_recovery_h2 bs =
     (if length bs < RECOVERY_UPDATE_BLOCK_SIZE then Inl InvalidHeader
      else case read_bytes 4 bs of (foo, r1) \<Rightarrow>
           case read_u64 r1 of (tgt, r2) \<Rightarrow>
           case read_ascii MD5_HASH_LENGTH r2 of (md5, r3) \<Rightarrow>
           case read_u32 r3 of (m1, r4) \<Rightarrow>
           case read_u32 r4 of (m2, r5) \<Rightarrow>
           case read_u32 r5 of (mi, r6) \<Rightarrow>
           case read_u32 r6 of (plat, r7) \<Rightarrow>
           case read_u32 r7 of (hrev, r8) \<Rightarrow>
           case read_u32 r8 of (brd, r9) \<Rightarrow>
             Inr \<lparr>h2_foo = foo, h2_target_revision = tgt, h2_md5_sum = md5,
                  h2_magic_1 = m1, h2_magic_2 = m2, h2_minor = mi, h2_platform = plat,
                  h2_header_rev = hrev, h2_board = brd\<rparr>)"

definition wf_recovery_h2 :: "RecoveryH2UpdateHeader \<Rightarrow> bool" where
  "wf_recovery_h2 h = (length (h2_foo h) = 4 \<and> length (h2_md5_sum h) = MD5_HASH_LENGTH)"

section \<open>Lemmas\<close>

lemma tolower_eq_NUL_iff: "tolower c = CHR 0x00 \<longleftrightarrow> c = CHR 0x00"
proof
  assume h: "tolower c = CHR 0x00"
  show "c = CHR 0x00"
  proof (cases "65 \<le> (of_char c :: nat) \<and> (of_char c :: nat) \<le> 90")
    case True
    then have "tolower c = char_of ((of_char c :: nat) + 32)"
      by (simp add: tolower_def)
    with h have "(of_char (char_of ((of_char c :: nat) + 32)) :: nat) = of_char (CHR 0x00)"
      by simp
    with True show ?thesis by simp
  next
    case False
    with h show ?thesis by (simp add: tolower_def)
  qed
next
  assume "c = CHR 0x00"
  then show "tolower c = CHR 0x00" by (simp add: tolower_def)
qed

lemma of_char_diff_eq_0_iff:
  "int (of_char c1) - int (of_char c2) = 0 \<longleftrightarrow> c1 = c2"
  by simp

lemma strncasecmp_eq_0_iff:
  "n \<le> length a \<Longrightarrow> length b = n \<Longrightarrow> CHR 0x00 \<notin> set b \<Longrightarrow>
   strncasecmp a b n = 0 \<longleftrightarrow> map tolower (take n a) = map tolower b"
proof (induction a b n rule: strncasecmp.induct)
  case (5 c1 s1 c2 s2 n)
  show ?case
  proof (cases "tolower c1 = tolower c2")
    case False
    then show ?thesis by simp
  next
    case True
    from "5.prems" have "c2 \<noteq> CHR 0x00" by auto
    then have "tolower c2 \<noteq> CHR 0x00" by (simp add: tolower_eq_NUL_iff)
    with True have "tolower c1 \<noteq> CHR 0x00" by simp
    then have "c1 \<noteq> CHR 0x00" by (simp add: tolower_eq_NUL_iff)
    with True "5.IH" "5.prems" show ?thesis by simp
  qed
qed simp_all

lemma strncmp_eq_0_iff:
  "n \<le> length a \<Longrightarrow> length b = n \<Longrightarrow> CHR 0x00 \<notin> set b \<Longrightarrow>
   strncmp a b n = 0 \<longleftrightarrow> take n a = b"
proof (induction a b n rule: strncmp.induct)
  case (5 c1 s1 c2 s2 n)
  show ?case
  proof (cases "c1 = c2")
    case False
    then show ?thesis by simp
  next
    case True
    from "5.prems" have "c2 \<noteq> CHR 0x00" by auto
    with True have "c1 \<noteq> CHR 0x00" by simp
    with True "5.IH" "5.prems" show ?thesis by simp
  qed
qed simp_all

lemma suffix_casecmp:
  assumes "length lit = k" and "CHR 0x00 \<notin> set lit" and "map tolower lit = lit"
    and "k \<le> length f"
  shows "(strncasecmp (drop (length f - k) f) lit k = 0)
         = (map tolower (drop (length f - k) f) = lit)"
proof -
  have "k \<le> length (drop (length f - k) f)" using assms(4) by simp
  from strncasecmp_eq_0_iff [OF this assms(1) assms(2)] assms(3,4)
  show ?thesis by simp
qed

lemma suffix_cmp:
  assumes "length lit = k" and "CHR 0x00 \<notin> set lit" and "k \<le> length f"
  shows "(strncmp (drop (length f - k) f) lit k = 0) = (drop (length f - k) f = lit)"
proof -
  have "k \<le> length (drop (length f - k) f)" using assms(3) by simp
  from strncmp_eq_0_iff [OF this assms(1) assms(2)] assms(3)
  show ?thesis by simp
qed

subsection \<open>Header codec\<close>

lemma length_le_bytes [simp]: "length (le_bytes n w) = n"
  by (induction n arbitrary: w) simp_all

lemma le_word_le_bytes_take_bit:
  "(le_word (le_bytes n w) :: 'a::len word) = take_bit (8 * n) w"
proof (induction n arbitrary: w)
  case 0
  show ?case by simp
next
  case (Suc n)
  have "(le_word (le_bytes (Suc n) w) :: 'a word)
        = ucast (ucast w :: u8) OR push_bit 8 (take_bit (8 * n) (drop_bit 8 w))"
    by (simp add: Suc.IH)
  also have "\<dots> = take_bit (8 * Suc n) w"
    by (rule bit_word_eqI) (auto simp: bit_simps)
  finally show ?case .
qed

lemma le_word_le_bytes:
  "LENGTH('a::len) \<le> 8 * n \<Longrightarrow> (le_word (le_bytes n w) :: 'a word) = w"
  by (simp add: le_word_le_bytes_take_bit take_bit_word_eq_self)

lemma length_ascii_bytes [simp]: "length (ascii_bytes s) = length s"
  by (simp add: ascii_bytes_def)

lemma bytes_ascii_ascii_bytes [simp]: "bytes_ascii (ascii_bytes s) = s"
  by (simp add: ascii_bytes_def bytes_ascii_def comp_def unat_of_nat)

lemma read_u8_Cons [simp]: "read_u8 (b # r) = (b, r)"
  by (simp add: read_u8_def)

lemma read_u16_le_bytes [simp]: "read_u16 (le_bytes 2 w @ r) = (w, r)"
  by (simp add: read_u16_def le_word_le_bytes)

lemma read_u32_le_bytes [simp]: "read_u32 (le_bytes 4 w @ r) = (w, r)"
  by (simp add: read_u32_def le_word_le_bytes)

lemma read_u64_le_bytes [simp]: "read_u64 (le_bytes 8 w @ r) = (w, r)"
  by (simp add: read_u64_def le_word_le_bytes)

lemma read_bytes_append [simp]: "length a = n \<Longrightarrow> read_bytes n (a @ r) = (a, r)"
  by (simp add: read_bytes_def)

lemma read_ascii_append [simp]:
  "length s = n \<Longrightarrow> read_ascii n (ascii_bytes s @ r) = (s, r)"
  by (simp add: read_ascii_def)

lemma length_zero_pad: "length (zero_pad n bs) = max n (length bs)"
  by (simp add: zero_pad_def)

lemma CertificateNumber_of_value [simp]:
  "CertificateNumber_of (CertificateNumber_value c) = Some c"
  by (cases c) (simp_all add: CertificateNumber_of_def)

lemma decode_encode_signature: "decode_signature (encode_signature h) = Inr h"
  by (simp add: decode_signature_def encode_signature_def length_zero_pad
      UPDATE_SIGNATURE_BLOCK_SIZE_def zero_pad_def)

lemma decode_encode_ota_append:
  "wf_ota h \<Longrightarrow> decode_ota (encode_ota h @ rest) = Inr h"
  by (simp add: decode_ota_def encode_ota_def length_zero_pad wf_ota_def
      OTA_UPDATE_BLOCK_SIZE_def MD5_HASH_LENGTH_def zero_pad_def)

lemma decode_encode_ota: "wf_ota h \<Longrightarrow> decode_ota (encode_ota h) = Inr h"
  using decode_encode_ota_append [of h "[]"] by simp


lemma length_encode_tail:
  "wf_tail t \<Longrightarrow> length (encode_tail t) = OTA_UPDATE_V2_PART_2_BLOCK_SIZE"
  by (simp add: encode_tail_def wf_tail_def MD5_HASH_LENGTH_def
      OTA_UPDATE_V2_PART_2_BLOCK_SIZE_def)

lemma read_tail_encode_tail:
  "wf_tail t \<Longrightarrow> read_tail (encode_tail t @ r) = (t, r)"
  by (simp add: read_tail_def encode_tail_def wf_tail_def)

lemma length_concat_tails:
  "list_all wf_tail ts \<Longrightarrow>
   length (concat (map encode_tail ts)) = length ts * OTA_UPDATE_V2_PART_2_BLOCK_SIZE"
  by (induction ts) (simp_all add: length_encode_tail)

lemma read_tails_encode:
  "list_all wf_tail ts \<Longrightarrow>
   read_tails (length ts) (concat (map encode_tail ts) @ r) = (ts, r)"
  by (induction ts) (simp_all add: read_tail_encode_tail)

lemma decode_encode_ota_v2:
  assumes "wf_ota_v2 h"
  shows "decode_ota_v2 (encode_ota_v2 h) = Inr h"
proof -
  from assms have n: "unat (v2_num_devices h) = length (v2_tails h)"
    and ts: "list_all wf_tail (v2_tails h)"
    by (simp_all add: wf_ota_v2_def)
  let ?body = "le_bytes 8 (v2_source_revision h) @ le_bytes 8 (v2_target_revision h) @
        le_bytes 2 (v2_num_devices h) @ concat (map encode_tail (v2_tails h))"
  have len: "\<not> length (zero_pad OTA_UPDATE_BLOCK_SIZE ?body) < OTA_UPDATE_BLOCK_SIZE"
    by (simp add: length_zero_pad)
  have "decode_ota_v2 (zero_pad OTA_UPDATE_BLOCK_SIZE ?body) = Inr h"
    unfolding decode_ota_v2_def
    using len n ts
    by (simp add: zero_pad_def read_tails_encode length_concat_tails)
  then show ?thesis by (simp add: encode_ota_v2_def)
qed

lemma decode_encode_recovery:
  "wf_recovery h \<Longrightarrow> decode_recovery (encode_recovery h) = Inr h"
  by (simp add: decode_recovery_def encode_recovery_def length_zero_pad wf_recovery_def
      MD5_HASH_LENGTH_def zero_pad_def)

lemma decode_encode_recovery_h2:
  "wf_recovery_h2 h \<Longrightarrow> decode_recovery_h2 (encode_recovery_h2 h) = Inr h"
  by (simp add: decode_recovery_h2_def encode_recovery_h2_def length_zero_pad
      wf_recovery_h2_def MD5_HASH_LENGTH_def zero_pad_def)

section \<open>Claims\<close>

text \<open>
  C4, as the header has it. The block that follows the four bytes of magic is 60 bytes
  for the OTA and the signature headers and 131068 bytes for the recovery headers; it is
  the recovery block together with its magic that is 131072 bytes
  (\<^verbatim>\<open>RECOVERY_BLOCK_SIZE\<close>). The sizes are constants and depend on nothing else.
\<close>

theorem header_block_sizes:
  "header_data_size ota_header_data = 60 \<and>
   header_data_size signature_header_data = 60 \<and>
   header_data_size recovery_header_data = 131068 \<and>
   MAGIC_NUMBER_LENGTH + header_data_size recovery_header_data = RECOVERY_BLOCK_SIZE \<and>
   RECOVERY_BLOCK_SIZE = 131072"
  by (simp add: OTA_UPDATE_BLOCK_SIZE_def UPDATE_SIGNATURE_BLOCK_SIZE_def
      RECOVERY_UPDATE_BLOCK_SIZE_def MAGIC_NUMBER_LENGTH_def RECOVERY_BLOCK_SIZE_def)

text \<open>
  C4 as the specification states it fails: the recovery header block that follows the
  magic is not 131072 bytes long.
\<close>

theorem recovery_header_block_not_131072:
  "header_data_size recovery_header_data \<noteq> 131072"
  by (simp add: RECOVERY_UPDATE_BLOCK_SIZE_def)

text \<open>
  C9. For a file name at least as long as the tested suffix, each of \<^verbatim>\<open>IS_SCRIPT\<close>,
  \<^verbatim>\<open>IS_SHELL\<close>, \<^verbatim>\<open>IS_SIG\<close>, \<^verbatim>\<open>IS_BIN\<close>, \<^verbatim>\<open>IS_STGZ\<close>, \<^verbatim>\<open>IS_TGZ\<close>,
  \<^verbatim>\<open>IS_TARBALL\<close> and \<^verbatim>\<open>IS_DAT\<close> holds exactly when the trailing characters, put in
  lower case, are the suffix: every capitalisation of the suffix matches. \<^verbatim>\<open>IS_UIMAGE\<close>
  holds exactly when the trailing six characters are \<^verbatim>\<open>uImage\<close> as spelt.
\<close>

theorem classification_by_suffix:
  "(4 \<le> length f \<longrightarrow>
      IS_SCRIPT f = Some (map tolower (drop (length f - 4) f) = ''.ffs'')) \<and>
   (3 \<le> length f \<longrightarrow>
      IS_SHELL f = Some (map tolower (drop (length f - 3) f) = ''.sh'')) \<and>
   (4 \<le> length f \<longrightarrow>
      IS_SIG f = Some (map tolower (drop (length f - 4) f) = ''.sig'')) \<and>
   (4 \<le> length f \<longrightarrow>
      IS_BIN f = Some (map tolower (drop (length f - 4) f) = ''.bin'')) \<and>
   (5 \<le> length f \<longrightarrow>
      IS_STGZ f = Some (map tolower (drop (length f - 5) f) = ''.stgz'')) \<and>
   (4 \<le> length f \<longrightarrow>
      IS_TGZ f = Some (map tolower (drop (length f - 4) f) = ''.tgz'')) \<and>
   (7 \<le> length f \<longrightarrow>
      IS_TARBALL f = Some (map tolower (drop (length f - 7) f) = ''.tar.gz'')) \<and>
   (4 \<le> length f \<longrightarrow>
      IS_DAT f = Some (map tolower (drop (length f - 4) f) = ''.dat'')) \<and>
   (6 \<le> length f \<longrightarrow>
      IS_UIMAGE f = Some (drop (length f - 6) f = ''uImage''))"
proof -
  have script: "4 \<le> length f \<Longrightarrow>
      IS_SCRIPT f = Some (map tolower (drop (length f - 4) f) = ''.ffs'')"
    using suffix_casecmp [of "''.ffs''" 4 f]
    by (simp add: IS_SCRIPT_def strlen_def tolower_def)
  have shell: "3 \<le> length f \<Longrightarrow>
      IS_SHELL f = Some (map tolower (drop (length f - 3) f) = ''.sh'')"
    using suffix_casecmp [of "''.sh''" 3 f]
    by (simp add: IS_SHELL_def strlen_def tolower_def)
  have sig: "4 \<le> length f \<Longrightarrow>
      IS_SIG f = Some (map tolower (drop (length f - 4) f) = ''.sig'')"
    using suffix_casecmp [of "''.sig''" 4 f]
    by (simp add: IS_SIG_def strlen_def tolower_def)
  have bin: "4 \<le> length f \<Longrightarrow>
      IS_BIN f = Some (map tolower (drop (length f - 4) f) = ''.bin'')"
    using suffix_casecmp [of "''.bin''" 4 f]
    by (simp add: IS_BIN_def strlen_def tolower_def)
  have stgz: "5 \<le> length f \<Longrightarrow>
      IS_STGZ f = Some (map tolower (drop (length f - 5) f) = ''.stgz'')"
    using suffix_casecmp [of "''.stgz''" 5 f]
    by (simp add: IS_STGZ_def strlen_def tolower_def)
  have tgz: "4 \<le> length f \<Longrightarrow>
      IS_TGZ f = Some (map tolower (drop (length f - 4) f) = ''.tgz'')"
    using suffix_casecmp [of "''.tgz''" 4 f]
    by (simp add: IS_TGZ_def strlen_def tolower_def)
  have tarball: "7 \<le> length f \<Longrightarrow>
      IS_TARBALL f = Some (map tolower (drop (length f - 7) f) = ''.tar.gz'')"
    using suffix_casecmp [of "''.tar.gz''" 7 f]
    by (simp add: IS_TARBALL_def strlen_def tolower_def)
  have dat: "4 \<le> length f \<Longrightarrow>
      IS_DAT f = Some (map tolower (drop (length f - 4) f) = ''.dat'')"
    using suffix_casecmp [of "''.dat''" 4 f]
    by (simp add: IS_DAT_def strlen_def tolower_def)
  have uimage: "6 \<le> length f \<Longrightarrow>
      IS_UIMAGE f = Some (drop (length f - 6) f = ''uImage'')"
    using suffix_cmp [of "''uImage''" 6 f]
    by (simp add: IS_UIMAGE_def strlen_def)
  from script shell sig bin stgz tgz tarball dat uimage show ?thesis by blast
qed

theorem classification_by_suffix_witness:
  "IS_SCRIPT ''Install.FFS'' = Some True \<and> IS_SHELL ''Install.FFS'' = Some False \<and>
   IS_SIG ''Install.FFS'' = Some False \<and> IS_BIN ''Install.FFS'' = Some False \<and>
   IS_STGZ ''Install.FFS'' = Some False \<and> IS_TGZ ''Install.FFS'' = Some False \<and>
   IS_TARBALL ''Install.FFS'' = Some False \<and> IS_DAT ''Install.FFS'' = Some False \<and>
   IS_UIMAGE ''Install.FFS'' = Some False \<and>
   IS_SHELL ''run.Sh'' = Some True \<and>
   IS_TARBALL ''rootfs.TAR.gz'' = Some True \<and>
   IS_UIMAGE ''boot/uImage'' = Some True \<and>
   IS_UIMAGE ''boot/UIMAGE'' = Some False"
  using classification_by_suffix [of "''Install.FFS''"]
    classification_by_suffix [of "''run.Sh''"]
    classification_by_suffix [of "''rootfs.TAR.gz''"]
    classification_by_suffix [of "''boot/uImage''"]
    classification_by_suffix [of "''boot/UIMAGE''"]
  by (simp add: tolower_def char_of_eq_iff)

text \<open>
  C5. For each of the five header variants, decoding the encoding of a header returns that
  header, where the header's arrays have the lengths their C types give them (and, for
  OTA v2, \<open>num_devices\<close> counts the tails); and each decoder answers \<open>InvalidHeader\<close> to
  a buffer shorter than the variant's block.
\<close>

theorem header_codec_round_trip:
  "decode_signature (encode_signature s) = Inr s \<and>
   (wf_ota a \<longrightarrow> decode_ota (encode_ota a) = Inr a) \<and>
   (wf_ota_v2 b \<longrightarrow> decode_ota_v2 (encode_ota_v2 b) = Inr b) \<and>
   (wf_recovery c \<longrightarrow> decode_recovery (encode_recovery c) = Inr c) \<and>
   (wf_recovery_h2 d \<longrightarrow> decode_recovery_h2 (encode_recovery_h2 d) = Inr d) \<and>
   (length bs < UPDATE_SIGNATURE_BLOCK_SIZE \<longrightarrow> decode_signature bs = Inl InvalidHeader) \<and>
   (length bs < OTA_UPDATE_BLOCK_SIZE \<longrightarrow> decode_ota bs = Inl InvalidHeader) \<and>
   (length bs < OTA_UPDATE_BLOCK_SIZE \<longrightarrow> decode_ota_v2 bs = Inl InvalidHeader) \<and>
   (length bs < RECOVERY_UPDATE_BLOCK_SIZE \<longrightarrow> decode_recovery bs = Inl InvalidHeader) \<and>
   (length bs < RECOVERY_UPDATE_BLOCK_SIZE \<longrightarrow>
      decode_recovery_h2 bs = Inl InvalidHeader)"
proof -
  have short:
    "length bs < UPDATE_SIGNATURE_BLOCK_SIZE \<longrightarrow> decode_signature bs = Inl InvalidHeader"
    "length bs < OTA_UPDATE_BLOCK_SIZE \<longrightarrow> decode_ota bs = Inl InvalidHeader"
    "length bs < OTA_UPDATE_BLOCK_SIZE \<longrightarrow> decode_ota_v2 bs = Inl InvalidHeader"
    "length bs < RECOVERY_UPDATE_BLOCK_SIZE \<longrightarrow> decode_recovery bs = Inl InvalidHeader"
    "length bs < RECOVERY_UPDATE_BLOCK_SIZE \<longrightarrow> decode_recovery_h2 bs = Inl InvalidHeader"
    by (simp_all add: decode_signature_def decode_ota_def decode_ota_v2_def
        decode_recovery_def decode_recovery_h2_def)
  with decode_encode_signature [of s] decode_encode_ota [of a] decode_encode_ota_v2 [of b]
    decode_encode_recovery [of c] decode_encode_recovery_h2 [of d]
  show ?thesis by blast
qed

theorem header_codec_round_trip_witness:
  "decode_signature (encode_signature \<lparr>certificate_number = Certificate2K\<rparr>)
     = Inr \<lparr>certificate_number = Certificate2K\<rparr> \<and>
   decode_ota (encode_ota
     \<lparr>ota_source_revision = 1, ota_target_revision = 2, ota_device = 0x24,
      ota_optional = 0, ota_unused = 0,
      ota_md5_sum = ''d41d8cd98f00b204e9800998ecf8427e''\<rparr>)
     = Inr \<lparr>ota_source_revision = 1, ota_target_revision = 2, ota_device = 0x24,
      ota_optional = 0, ota_unused = 0,
      ota_md5_sum = ''d41d8cd98f00b204e9800998ecf8427e''\<rparr> \<and>
   decode_ota_v2 (encode_ota_v2
     \<lparr>v2_source_revision = 0, v2_target_revision = 5, v2_num_devices = 2,
      v2_tails =
        [\<lparr>tail_device = 0x201, tail_critical = 0, tail_unused = 0,
          tail_md5_sum = ''d41d8cd98f00b204e9800998ecf8427e''\<rparr>,
         \<lparr>tail_device = 0x202, tail_critical = 0, tail_unused = 0,
          tail_md5_sum = ''d41d8cd98f00b204e9800998ecf8427e''\<rparr>]\<rparr>)
     = Inr \<lparr>v2_source_revision = 0, v2_target_revision = 5, v2_num_devices = 2,
      v2_tails =
        [\<lparr>tail_device = 0x201, tail_critical = 0, tail_unused = 0,
          tail_md5_sum = ''d41d8cd98f00b204e9800998ecf8427e''\<rparr>,
         \<lparr>tail_device = 0x202, tail_critical = 0, tail_unused = 0,
          tail_md5_sum = ''d41d8cd98f00b204e9800998ecf8427e''\<rparr>]\<rparr> \<and>
   decode_recovery (encode_recovery
     \<lparr>rec_unused = [0, 0, 0, 0, 0, 0, 0, 0, 0, 0, 0, 0],
      rec_md5_sum = ''d41d8cd98f00b204e9800998ecf8427e'',
      rec_magic_1 = 1, rec_magic_2 = 2, rec_minor = 0, rec_device = 0x0E\<rparr>)
     = Inr \<lparr>rec_unused = [0, 0, 0, 0, 0, 0, 0, 0, 0, 0, 0, 0],
      rec_md5_sum = ''d41d8cd98f00b204e9800998ecf8427e'',
      rec_magic_1 = 1, rec_magic_2 = 2, rec_minor = 0, rec_device = 0x0E\<rparr> \<and>
   decode_recovery_h2 (encode_recovery_h2
     \<lparr>h2_foo = [0, 0, 0, 0], h2_target_revision = 5,
      h2_md5_sum = ''d41d8cd98f00b204e9800998ecf8427e'',
      h2_magic_1 = 1, h2_magic_2 = 2, h2_minor = 0, h2_platform = 0x0C,
      h2_header_rev = 2, h2_board = 0\<rparr>)
     = Inr \<lparr>h2_foo = [0, 0, 0, 0], h2_target_revision = 5,
      h2_md5_sum = ''d41d8cd98f00b204e9800998ecf8427e'',
      h2_magic_1 = 1, h2_magic_2 = 2, h2_minor = 0, h2_platform = 0x0C,
      h2_header_rev = 2, h2_board = 0\<rparr> \<and>
   decode_signature [0, 0, 0] = Inl InvalidHeader \<and>
   decode_ota [0, 0, 0] = Inl InvalidHeader \<and>
   decode_ota_v2 [0, 0, 0] = Inl InvalidHeader \<and>
   decode_recovery [0, 0, 0] = Inl InvalidHeader \<and>
   decode_recovery_h2 [0, 0, 0] = Inl InvalidHeader"
  using header_codec_round_trip
    [of "\<lparr>certificate_number = Certificate2K\<rparr>"
        "\<lparr>ota_source_revision = 1, ota_target_revision = 2, ota_device = 0x24,
          ota_optional = 0, ota_unused = 0,
          ota_md5_sum = ''d41d8cd98f00b204e9800998ecf8427e''\<rparr>"
        "\<lparr>v2_source_revision = 0, v2_target_revision = 5, v2_num_devices = 2,
          v2_tails =
            [\<lparr>tail_device = 0x201, tail_critical = 0, tail_unused = 0,
              tail_md5_sum = ''d41d8cd98f00b204e9800998ecf8427e''\<rparr>,
             \<lparr>tail_device = 0x202, tail_critical = 0, tail_unused = 0,
              tail_md5_sum = ''d41d8cd98f00b204e9800998ecf8427e''\<rparr>]\<rparr>"
        "\<lparr>rec_unused = [0, 0, 0, 0, 0, 0, 0, 0, 0, 0, 0, 0],
          rec_md5_sum = ''d41d8cd98f00b204e9800998ecf8427e'',
          rec_magic_1 = 1, rec_magic_2 = 2, rec_minor = 0, rec_device = 0x0E\<rparr>"
        "\<lparr>h2_foo = [0, 0, 0, 0], h2_target_revision = 5,
          h2_md5_sum = ''d41d8cd98f00b204e9800998ecf8427e'',
          h2_magic_1 = 1, h2_magic_2 = 2, h2_minor = 0, h2_platform = 0x0C,
          h2_header_rev = 2, h2_board = 0\<rparr>"
        "[0, 0, 0]"]
  by (simp add: wf_ota_def wf_ota_v2_def wf_tail_def wf_recovery_def wf_recovery_h2_def
      MD5_HASH_LENGTH_def UPDATE_SIGNATURE_BLOCK_SIZE_def OTA_UPDATE_BLOCK_SIZE_def
      RECOVERY_UPDATE_BLOCK_SIZE_def)

end
